theory Spec2Isabelle
  imports Main "HOL-Library.Multiset" "HOL-Library.Word"
begin

section \<open>File upload service: Express routes over Cloudinary and MongoDB\<close>

text \<open>
  The server keeps file metadata in one MongoDB collection (the Mongoose model \<open>File\<close>) and
  sends the bytes to Cloudinary. The handlers are modelled by explicit state passing: the
  state holds the collection and the log of calls made to the Cloudinary client; what the
  outside world answers (the outcome of the Cloudinary upload, a driver fault, the fresh
  ObjectId, the clock) is an argument of the handler.
\<close>

subsection \<open>JSON values and responses\<close>

datatype object_id = ObjectId string

datatype json =
    JNull
  | JBool bool
  | JNum int
  | JStr string
  | JDate int
  | JOid object_id
  | JArr "json list"
  | JObj "(string \<times> json) list"

datatype body = JsonBody json | HtmlError string

record response =
  status :: nat
  body :: body

text \<open>\<open>res.json(v)\<close> answers with status 200; \<open>res.status(c).json(v)\<close> with status \<open>c\<close>.\<close>

definition res_json :: "json \<Rightarrow> response" where
  "res_json v = \<lparr>status = 200, body = JsonBody v\<rparr>"

definition res_status_json :: "nat \<Rightarrow> json \<Rightarrow> response" where
  "res_status_json c v = \<lparr>status = c, body = JsonBody v\<rparr>"

fun keys :: "json \<Rightarrow> string list" where
  "keys (JObj kvs) = map fst kvs"
| "keys _ = []"

fun field :: "string \<Rightarrow> json \<Rightarrow> json option" where
  "field k (JObj kvs) = map_of kvs k"
| "field k _ = None"

fun error_message :: "response \<Rightarrow> string option" where
  "error_message r =
     (case body r of
        JsonBody j \<Rightarrow> (case field ''error'' j of Some (JStr m) \<Rightarrow> Some m | _ \<Rightarrow> None)
      | HtmlError _ \<Rightarrow> None)"

definition ascii_lower :: "char \<Rightarrow> char" where
  "ascii_lower c =
     (case map_of (zip ''ABCDEFGHIJKLMNOPQRSTUVWXYZ'' ''abcdefghijklmnopqrstuvwxyz'') c of
        Some l \<Rightarrow> l
      | None \<Rightarrow> c)"

subsection \<open>Environment variables\<close>

record env =
  CLOUDINARY_CLOUD_NAME :: "string option"
  CLOUDINARY_API_KEY :: "string option"
  CLOUDINARY_API_SECRET :: "string option"

text \<open>JavaScript truthiness of \<open>process.env.X\<close>: defined and not the empty string.\<close>

definition truthy :: "string option \<Rightarrow> bool" where
  "truthy v = (case v of None \<Rightarrow> False | Some s \<Rightarrow> s \<noteq> [])"

text \<open>
  The start-up validation reports a missing variable when one of the three values is
  falsy; its \<open>else\<close> branch (``Cloudinary environment variables are present'') is taken
  when all three are truthy.
\<close>

definition cloudinary_env_present :: "env \<Rightarrow> bool" where
  "cloudinary_env_present e =
     (truthy (CLOUDINARY_CLOUD_NAME e) \<and>
      truthy (CLOUDINARY_API_KEY e) \<and>
      truthy (CLOUDINARY_API_SECRET e))"

subsection \<open>The File model\<close>

record file_doc =
  doc_id :: object_id
  filename :: string
  originalName :: string
  cloudinaryUrl :: string
  uploadDate :: int

text \<open>
  A stored document as \<open>res.json\<close> serialises it: the schema's paths, the \<open>_id\<close> and the
  version key \<open>__v\<close> that Mongoose adds to every document of a schema that does not switch
  it off (it stays 0: no handler updates a document).
\<close>

definition toJSON :: "file_doc \<Rightarrow> json" where
  "toJSON d = JObj
     [(''_id'', JOid (doc_id d)),
      (''filename'', JStr (filename d)),
      (''originalName'', JStr (originalName d)),
      (''cloudinaryUrl'', JStr (cloudinaryUrl d)),
      (''uploadDate'', JDate (uploadDate d)),
      (''__v'', JNum 0)]"

text \<open>
  Mongoose casts the \<open>:id\<close> route parameter to an ObjectId before it queries: a string of
  24 hexadecimal digits is accepted (case-insensitively), anything else makes the query
  reject with a CastError. (Older releases of the driver's bson library also take any
  string of 12 bytes; the dependency's version is not part of the sources, and that form
  is left out.)
\<close>

definition is_hex :: "char \<Rightarrow> bool" where
  "is_hex c = (c \<in> set ''0123456789abcdefABCDEF'')"

definition castObjectId :: "string \<Rightarrow> object_id option" where
  "castObjectId s =
     (if length s = 24 \<and> list_all is_hex s then Some (ObjectId (map ascii_lower s)) else None)"

text \<open>
  The collection is the list of its documents in insertion order. A driver call either
  rejects (the fault, with its message) or answers from the collection. \<open>_id\<close> carries
  MongoDB's unique index, so inserting a second document with a stored \<open>_id\<close> rejects.
\<close>

type_synonym fault = "string option"

definition File_save :: "file_doc \<Rightarrow> fault \<Rightarrow> file_doc list \<Rightarrow> string + file_doc list" where
  "File_save d flt coll =
     (case flt of
        Some m \<Rightarrow> Inl m
      | None \<Rightarrow>
          if doc_id d \<in> set (map doc_id coll) then Inl ''E11000 duplicate key error''
          else Inr (coll @ [d]))"

text \<open>
  \<open>File.find().sort({ uploadDate: -1 })\<close>: every document, by \<open>uploadDate\<close> descending.
  MongoDB leaves the order of documents with equal keys open; the model keeps them in
  insertion order.
\<close>

definition File_find_sort :: "fault \<Rightarrow> file_doc list \<Rightarrow> string + file_doc list" where
  "File_find_sort flt coll =
     (case flt of
        Some m \<Rightarrow> Inl m
      | None \<Rightarrow> Inr (sort_key (\<lambda>d. - uploadDate d) coll))"

definition File_findById :: "string \<Rightarrow> fault \<Rightarrow> file_doc list \<Rightarrow> string + file_doc option" where
  "File_findById i flt coll =
     (case castObjectId i of
        None \<Rightarrow> Inl ''Cast to ObjectId failed''
      | Some oid \<Rightarrow>
          (case flt of
             Some m \<Rightarrow> Inl m
           | None \<Rightarrow> Inr (find (\<lambda>d. doc_id d = oid) coll)))"

fun delete_first :: "object_id \<Rightarrow> file_doc list \<Rightarrow> file_doc list" where
  "delete_first oid [] = []"
| "delete_first oid (d # ds) = (if doc_id d = oid then ds else d # delete_first oid ds)"

definition File_findByIdAndDelete :: "string \<Rightarrow> fault \<Rightarrow> file_doc list \<Rightarrow> string + file_doc list" where
  "File_findByIdAndDelete i flt coll =
     (case castObjectId i of
        None \<Rightarrow> Inl ''Cast to ObjectId failed''
      | Some oid \<Rightarrow>
          (case flt of
             Some m \<Rightarrow> Inl m
           | None \<Rightarrow> Inr (delete_first oid coll)))"

subsection \<open>Cloudinary client\<close>

type_synonym buffer = "8 word list"

record upload_options =
  resource_type :: string
  folder :: string

datatype cloud_call = UploadStream upload_options buffer

record cloud_result =
  secure_url :: string

text \<open>
  How the promise around \<open>upload_stream\<close> settles: the callback gets an error, the stream
  emits \<open>error\<close>, a call inside the executor throws (the client refuses to start, as it
  does without an API key), or the callback gets the result. The first two reject with a
  prefixed message, a throw rejects with the thrown error itself.
\<close>

datatype cloud_outcome =
    CallbackError string
  | StreamError string
  | Thrown string
  | Uploaded cloud_result

subsection \<open>Server state\<close>

record server_state =
  files :: "file_doc list"
  cloud_calls :: "cloud_call list"

subsection \<open>Multer: memory storage, one file field named \<open>file\<close>, at most 10 MiB\<close>

record file_part =
  fieldname :: string
  originalname :: string
  mimetype :: string
  buffer :: buffer

definition fileSize :: nat where
  "fileSize = 10 * 1024 * 1024"

datatype multer_error = LIMIT_FILE_SIZE | LIMIT_UNEXPECTED_FILE

text \<open>
  \<open>upload.single('file')\<close> reads the file parts of the body in order. A part under another
  field name, or a second part, is unexpected; a part longer than \<open>limits.fileSize\<close> is too
  large. Either error goes to \<open>next(err)\<close> and the route's handler does not run. Without a
  file part \<open>req.file\<close> stays undefined. \<open>fileSize\<close> is the largest size accepted, as
  Multer documents the limit.
\<close>

fun upload_single :: "file_part list \<Rightarrow> multer_error + file_part option" where
  "upload_single [] = Inr None"
| "upload_single (p # ps) =
     (if fieldname p \<noteq> ''file'' then Inl LIMIT_UNEXPECTED_FILE
      else if length (buffer p) > fileSize then Inl LIMIT_FILE_SIZE
      else if ps \<noteq> [] then Inl LIMIT_UNEXPECTED_FILE
      else Inr (Some p))"

text \<open>
  No error middleware is installed, so Express's default handler answers an error passed
  to \<open>next\<close>: a MulterError carries no status, which gives 500 and an HTML page.
\<close>

fun multer_code :: "multer_error \<Rightarrow> string" where
  "multer_code LIMIT_FILE_SIZE = ''LIMIT_FILE_SIZE''"
| "multer_code LIMIT_UNEXPECTED_FILE = ''LIMIT_UNEXPECTED_FILE''"

definition default_error_handler :: "multer_error \<Rightarrow> response" where
  "default_error_handler e = \<lparr>status = 500, body = HtmlError (multer_code e)\<rparr>"

subsection \<open>Routes\<close>

text \<open>\<open>GET /api/test\<close>\<close>

definition api_test :: "env \<Rightarrow> server_state \<Rightarrow> server_state \<times> response" where
  "api_test e st =
     (st, res_json (JObj
        [(''message'', JStr ''Backend is working!''),
         (''cloudinary_configured'', JBool (truthy (CLOUDINARY_CLOUD_NAME e)))]))"

text \<open>\<open>GET /health\<close>; \<open>now\<close> is the clock read by \<open>new Date()\<close>.\<close>

definition health :: "env \<Rightarrow> int \<Rightarrow> server_state \<Rightarrow> server_state \<times> response" where
  "health e now st =
     (st, res_json (JObj
        [(''status'', JStr ''OK''),
         (''timestamp'', JDate now),
         (''cloudinary_configured'', JBool (truthy (CLOUDINARY_CLOUD_NAME e)))]))"

text \<open>
  \<open>POST /api/upload\<close>, the handler behind Multer. \<open>cloud\<close> is how the Cloudinary upload
  settles, \<open>save_fault\<close> a fault of the insert, \<open>new_id\<close> the ObjectId that \<open>new File\<close>
  generates and \<open>now\<close> the clock read by the schema default \<open>Date.now\<close>.
\<close>

definition upload_failed :: "string \<Rightarrow> response" where
  "upload_failed m =
     res_status_json 500 (JObj [(''error'', JStr ''Upload failed''), (''details'', JStr m)])"

definition mern_uploads :: upload_options where
  "mern_uploads = \<lparr>resource_type = ''auto'', folder = ''mern-uploads''\<rparr>"

definition upload_handler ::
  "server_state \<Rightarrow> file_part option \<Rightarrow> cloud_outcome \<Rightarrow> fault \<Rightarrow> object_id \<Rightarrow> int \<Rightarrow>
   server_state \<times> response" where
  "upload_handler st req_file cloud save_fault new_id now =
     (case req_file of
        None \<Rightarrow> (st, res_status_json 400 (JObj [(''error'', JStr ''No file uploaded'')]))
      | Some f \<Rightarrow>
          (let st1 = st\<lparr>cloud_calls := cloud_calls st @ [UploadStream mern_uploads (buffer f)]\<rparr>
           in case cloud of
                CallbackError m \<Rightarrow> (st1, upload_failed (''Cloudinary error: '' @ m))
              | StreamError m \<Rightarrow> (st1, upload_failed (''Stream error: '' @ m))
              | Thrown m \<Rightarrow> (st1, upload_failed m)
              | Uploaded result \<Rightarrow>
                  (let fileDoc = \<lparr>doc_id = new_id,
                                  filename = originalname f,
                                  originalName = originalname f,
                                  cloudinaryUrl = secure_url result,
                                  uploadDate = now\<rparr>
                   in case File_save fileDoc save_fault (files st1) of
                        Inl m \<Rightarrow> (st1, upload_failed m)
                      | Inr coll \<Rightarrow>
                          (st1\<lparr>files := coll\<rparr>,
                           res_json (JObj
                             [(''message'', JStr ''File uploaded successfully''),
                              (''file'', JObj
                                 [(''id'', JOid (doc_id fileDoc)),
                                  (''filename'', JStr (filename fileDoc)),
                                  (''url'', JStr (cloudinaryUrl fileDoc)),
                                  (''uploadDate'', JDate (uploadDate fileDoc))])])))))"

text \<open>The route: Multer first, then the handler.\<close>

definition post_upload ::
  "server_state \<Rightarrow> file_part list \<Rightarrow> cloud_outcome \<Rightarrow> fault \<Rightarrow> object_id \<Rightarrow> int \<Rightarrow>
   server_state \<times> response" where
  "post_upload st parts cloud save_fault new_id now =
     (case upload_single parts of
        Inl e \<Rightarrow> (st, default_error_handler e)
      | Inr req_file \<Rightarrow> upload_handler st req_file cloud save_fault new_id now)"

text \<open>\<open>GET /api/files\<close>\<close>

definition get_files :: "server_state \<Rightarrow> fault \<Rightarrow> server_state \<times> response" where
  "get_files st find_fault =
     (case File_find_sort find_fault (files st) of
        Inr fs \<Rightarrow> (st, res_json (JArr (map toJSON fs)))
      | Inl m \<Rightarrow> (st, res_status_json 500 (JObj [(''error'', JStr ''Failed to fetch files'')])))"

text \<open>\<open>DELETE /api/files/:id\<close>\<close>

definition delete_file :: "server_state \<Rightarrow> string \<Rightarrow> fault \<Rightarrow> fault \<Rightarrow> server_state \<times> response" where
  "delete_file st i find_fault delete_fault =
     (case File_findById i find_fault (files st) of
        Inl m \<Rightarrow> (st, res_status_json 500 (JObj [(''error'', JStr ''Delete failed'')]))
      | Inr None \<Rightarrow> (st, res_status_json 404 (JObj [(''error'', JStr ''File not found'')]))
      | Inr (Some file) \<Rightarrow>
          (case File_findByIdAndDelete i delete_fault (files st) of
             Inl m \<Rightarrow> (st, res_status_json 500 (JObj [(''error'', JStr ''Delete failed'')]))
           | Inr coll \<Rightarrow>
               (st\<lparr>files := coll\<rparr>, res_json (JObj [(''message'', JStr ''File deleted from database'')]))))"

subsection \<open>The router and runs of the server\<close>

datatype request =
    GET_test
  | GET_health int
  | POST_upload "file_part list" cloud_outcome fault object_id int
  | GET_files fault
  | DELETE_file string fault fault

fun serve :: "env \<Rightarrow> server_state \<Rightarrow> request \<Rightarrow> server_state \<times> response" where
  "serve e st GET_test = api_test e st"
| "serve e st (GET_health now) = health e now st"
| "serve e st (POST_upload parts cloud save_fault new_id now) =
     post_upload st parts cloud save_fault new_id now"
| "serve e st (GET_files find_fault) = get_files st find_fault"
| "serve e st (DELETE_file i find_fault delete_fault) = delete_file st i find_fault delete_fault"

text \<open>The state after a sequence of requests, served one after the other.\<close>

fun run :: "env \<Rightarrow> server_state \<Rightarrow> request list \<Rightarrow> server_state" where
  "run e st [] = st"
| "run e st (r # rs) = run e (fst (serve e st r)) rs"

definition initial :: server_state where
  "initial = \<lparr>files = [], cloud_calls = []\<rparr>"

text \<open>The hexadecimal string of an ObjectId, as it appears in a URL.\<close>

fun toHexString :: "object_id \<Rightarrow> string" where
  "toHexString (ObjectId s) = s"

text \<open>The \<open>file\<close> object of an upload response.\<close>

fun response_file :: "response \<Rightarrow> json option" where
  "response_file r = (case body r of JsonBody j \<Rightarrow> field ''file'' j | HtmlError _ \<Rightarrow> None)"

subsection \<open>Sample data\<close>

definition cat_png :: file_part where
  "cat_png = \<lparr>fieldname = ''file'', originalname = ''cat.png'', mimetype = ''image/png'',
              buffer = [137, 80, 78, 71]\<rparr>"

definition big_bin :: file_part where
  "big_bin = \<lparr>fieldname = ''file'', originalname = ''big.bin'',
              mimetype = ''application/octet-stream'', buffer = replicate 10485761 0\<rparr>"

definition doc_a :: file_doc where
  "doc_a = \<lparr>doc_id = ObjectId ''64b7f0c2a1d3e4f5a6b7c8d1'', filename = ''a.png'',
            originalName = ''a.png'', cloudinaryUrl = ''https://res.cloudinary.com/demo/a.png'',
            uploadDate = 1700000000500\<rparr>"

definition doc_b :: file_doc where
  "doc_b = \<lparr>doc_id = ObjectId ''64b7f0c2a1d3e4f5a6b7c8d2'', filename = ''b.png'',
            originalName = ''b.png'', cloudinaryUrl = ''https://res.cloudinary.com/demo/b.png'',
            uploadDate = 1700000000900\<rparr>"

definition doc_c :: file_doc where
  "doc_c = \<lparr>doc_id = ObjectId ''64b7f0c2a1d3e4f5a6b7c8d3'', filename = ''c.png'',
            originalName = ''c.png'', cloudinaryUrl = ''https://res.cloudinary.com/demo/c.png'',
            uploadDate = 1700000000700\<rparr>"

definition three_files :: server_state where
  "three_files = \<lparr>files = [doc_a, doc_b, doc_c], cloud_calls = []\<rparr>"

definition cat_url :: cloud_result where
  "cat_url = \<lparr>secure_url = ''https://res.cloudinary.com/demo/mern-uploads/cat.png''\<rparr>"

definition cat_id :: object_id where
  "cat_id = ObjectId ''64b7f0c2a1d3e4f5a6b7c8d4''"

definition cat_doc :: file_doc where
  "cat_doc = \<lparr>doc_id = cat_id, filename = ''cat.png'', originalName = ''cat.png'',
              cloudinaryUrl = secure_url cat_url, uploadDate = 1700000001000\<rparr>"

definition dog_png :: file_part where
  "dog_png = \<lparr>fieldname = ''file'', originalname = ''dog.png'', mimetype = ''image/png'',
              buffer = [137, 80, 78, 71, 13]\<rparr>"

definition dog_url :: cloud_result where
  "dog_url = \<lparr>secure_url = ''https://res.cloudinary.com/demo/mern-uploads/dog.png''\<rparr>"

definition dog_id :: object_id where
  "dog_id = ObjectId ''64b7f0c2a1d3e4f5a6b7c8d5''"

definition dog_doc :: file_doc where
  "dog_doc = \<lparr>doc_id = dog_id, filename = ''dog.png'', originalName = ''dog.png'',
              cloudinaryUrl = secure_url dog_url, uploadDate = 1700000001000\<rparr>"

text \<open>Two uploads whose documents are created in the same millisecond.\<close>

definition same_millisecond :: "request list" where
  "same_millisecond =
     [POST_upload [cat_png] (Uploaded cat_url) None cat_id 1700000001000,
      POST_upload [dog_png] (Uploaded dog_url) None dog_id 1700000001000]"

definition cloud_name_only :: env where
  "cloud_name_only = \<lparr>CLOUDINARY_CLOUD_NAME = Some ''demo'', CLOUDINARY_API_KEY = None,
                      CLOUDINARY_API_SECRET = None\<rparr>"

section \<open>Properties\<close>

subsection \<open>Facts about the collection\<close>

lemma find_absent: "oid \<notin> doc_id ` set ds \<Longrightarrow> find (\<lambda>d. doc_id d = oid) ds = None"
  by (induction ds) auto

lemma find_member:
  "distinct (map doc_id ds) \<Longrightarrow> d \<in> set ds \<Longrightarrow> find (\<lambda>x. doc_id x = doc_id d) ds = Some d"
  by (induction ds) (auto simp: rev_image_eqI)

lemma delete_first_remove1:
  "distinct (map doc_id ds) \<Longrightarrow> d \<in> set ds \<Longrightarrow> delete_first (doc_id d) ds = remove1 d ds"
  by (induction ds) (auto simp: rev_image_eqI)

lemma sorted_desc:
  "sorted_wrt (\<lambda>a b. uploadDate b \<le> uploadDate a) (sort_key (\<lambda>d. - uploadDate d) xs)"
proof -
  have "sorted (map (\<lambda>d. - uploadDate d) (sort_key (\<lambda>d. - uploadDate d) xs))"
    by (rule sorted_sort_key)
  then show ?thesis by (simp add: sorted_map)
qed

lemma strict_desc:
  assumes "distinct (map uploadDate xs)"
  shows "sorted_wrt (\<lambda>a b. uploadDate b < uploadDate a) (sort_key (\<lambda>d. - uploadDate d) xs)"
proof -
  let ?ys = "sort_key (\<lambda>d. - uploadDate d) xs"
  have "mset (map uploadDate ?ys) = mset (map uploadDate xs)" by simp
  then have d: "distinct (map uploadDate ?ys)"
    using assms by (metis mset_eq_imp_distinct_iff)
  have inj: "inj (uminus :: int \<Rightarrow> int)" by (simp add: inj_on_def)
  have "distinct (map (\<lambda>d. - uploadDate d) ?ys)"
    using d distinct_map[of uminus "map uploadDate ?ys"] inj
    by (simp add: comp_def inj_on_def)
  moreover have "sorted (map (\<lambda>d. - uploadDate d) ?ys)" by (rule sorted_sort_key)
  ultimately have "sorted_wrt (<) (map (\<lambda>d. - uploadDate d) ?ys)"
    by (simp add: strict_sorted_iff)
  then show ?thesis by (simp add: sorted_wrt_map)
qed

lemma upload_single_oversize:
  assumes "p \<in> set parts" and "length (buffer p) > fileSize"
  shows "\<exists>e. upload_single parts = Inl e"
proof (cases parts)
  case Nil
  with assms show ?thesis by simp
next
  case (Cons q qs)
  with assms show ?thesis by (cases "q = p") auto
qed

lemma upload_success:
  assumes "upload_single parts = Inr (Some f)" and "cloud = Uploaded result"
    and "save_fault = None" and "new_id \<notin> set (map doc_id (files st))"
  shows "post_upload st parts cloud save_fault new_id now =
     (st\<lparr>cloud_calls := cloud_calls st @ [UploadStream mern_uploads (buffer f)],
         files := files st @ [\<lparr>doc_id = new_id, filename = originalname f,
                                originalName = originalname f,
                                cloudinaryUrl = secure_url result, uploadDate = now\<rparr>]\<rparr>,
      res_json (JObj
        [(''message'', JStr ''File uploaded successfully''),
         (''file'', JObj
            [(''id'', JOid new_id),
             (''filename'', JStr (originalname f)),
             (''url'', JStr (secure_url result)),
             (''uploadDate'', JDate now)])]))"
  using assms by (simp add: post_upload_def upload_handler_def File_save_def)

subsection \<open>Upload\<close>

text \<open>
  C1. When a file reached the handler and the Cloudinary upload does not deliver a result
  (the callback gets an error, the stream emits one, or the client throws), the route
  answers 500 ``Upload failed'' and the collection is what it was before the request.
\<close>

theorem storage_failure_persists_nothing:
  assumes "upload_single parts = Inr (Some f)"
    and "\<forall>result. cloud \<noteq> Uploaded result"
  shows "status (snd (post_upload st parts cloud save_fault new_id now)) = 500 \<and>
         error_message (snd (post_upload st parts cloud save_fault new_id now)) =
           Some ''Upload failed'' \<and>
         files (fst (post_upload st parts cloud save_fault new_id now)) = files st"
  using assms
  by (cases cloud)
     (simp_all add: post_upload_def upload_handler_def upload_failed_def res_status_json_def)

theorem storage_failure_persists_nothing_witness:
  "upload_single [cat_png] = Inr (Some cat_png) \<and>
   (\<forall>result. Thrown ''Must supply api_key'' \<noteq> Uploaded result) \<and>
   post_upload three_files [cat_png] (Thrown ''Must supply api_key'') None cat_id 1700000001000 =
     (three_files\<lparr>cloud_calls := [UploadStream mern_uploads (buffer cat_png)]\<rparr>,
      res_status_json 500
        (JObj [(''error'', JStr ''Upload failed''), (''details'', JStr ''Must supply api_key'')])) \<and>
   status (snd (post_upload three_files [cat_png] (StreamError ''socket hang up'') None cat_id
     1700000001000)) = 500 \<and>
   files (fst (post_upload three_files [cat_png] (StreamError ''socket hang up'') None cat_id
     1700000001000)) = [doc_a, doc_b, doc_c] \<and>
   status (snd (post_upload three_files [cat_png] (CallbackError ''Invalid image file'') None
     cat_id 1700000001000)) = 500 \<and>
   files (fst (post_upload three_files [cat_png] (CallbackError ''Invalid image file'') None
     cat_id 1700000001000)) = [doc_a, doc_b, doc_c]"
proof -
  have h: "upload_single [cat_png] = Inr (Some cat_png)"
    by (simp add: cat_png_def fileSize_def)
  have t: "\<forall>result. Thrown ''Must supply api_key'' \<noteq> Uploaded result" by simp
  have s: "\<forall>result. StreamError ''socket hang up'' \<noteq> Uploaded result" by simp
  have c: "\<forall>result. CallbackError ''Invalid image file'' \<noteq> Uploaded result" by simp
  have e: "post_upload three_files [cat_png] (Thrown ''Must supply api_key'') None cat_id
      1700000001000 =
     (three_files\<lparr>cloud_calls := [UploadStream mern_uploads (buffer cat_png)]\<rparr>,
      res_status_json 500
        (JObj [(''error'', JStr ''Upload failed''), (''details'', JStr ''Must supply api_key'')]))"
    using h by (simp add: post_upload_def upload_handler_def upload_failed_def three_files_def)
  note t1 = storage_failure_persists_nothing [OF h t, of three_files None cat_id 1700000001000]
  note t2 = storage_failure_persists_nothing [OF h s, of three_files None cat_id 1700000001000]
  note t3 = storage_failure_persists_nothing [OF h c, of three_files None cat_id 1700000001000]
  show ?thesis using t1 t2 t3 h e by (simp add: three_files_def)
qed

text \<open>
  C3, as stated, fails on the message: the handler sends ``No file uploaded'', with a
  capital letter, not ``no file uploaded''.
\<close>

theorem no_file_message_counterexample:
  "error_message (snd (post_upload initial [] (Uploaded cat_url) None cat_id 1700000001000)) =
     Some ''No file uploaded'' \<and>
   error_message (snd (post_upload initial [] (Uploaded cat_url) None cat_id 1700000001000)) \<noteq>
     Some ''no file uploaded''"
  by (simp add: post_upload_def upload_handler_def res_status_json_def)

text \<open>
  C3, amended. A body without a file part passes Multer with \<open>req.file\<close> undefined; the
  handler answers 400 with the error ``No file uploaded'' and returns the state untouched:
  no document is created and Cloudinary is not called.
\<close>

theorem upload_without_file_is_client_error:
  "post_upload st [] cloud save_fault new_id now =
     (st, res_status_json 400 (JObj [(''error'', JStr ''No file uploaded'')])) \<and>
   status (snd (post_upload st [] cloud save_fault new_id now)) = 400 \<and>
   error_message (snd (post_upload st [] cloud save_fault new_id now)) =
     Some ''No file uploaded'' \<and>
   files (fst (post_upload st [] cloud save_fault new_id now)) = files st \<and>
   cloud_calls (fst (post_upload st [] cloud save_fault new_id now)) = cloud_calls st"
  by (simp add: post_upload_def upload_handler_def res_status_json_def)

text \<open>
  C5. A body that holds a file part longer than \<open>limits.fileSize\<close> (10 MiB) never reaches
  the handler: Multer passes an error to Express, the log of Cloudinary calls and the
  collection are unchanged; when that part is the one file of the field \<open>file\<close>, the error
  is \<open>LIMIT_FILE_SIZE\<close>.
\<close>

theorem oversize_upload_rejected_before_storage:
  assumes "p \<in> set parts" and "length (buffer p) > fileSize"
  shows "cloud_calls (fst (post_upload st parts cloud save_fault new_id now)) = cloud_calls st \<and>
         files (fst (post_upload st parts cloud save_fault new_id now)) = files st \<and>
         (\<exists>e. snd (post_upload st parts cloud save_fault new_id now) = default_error_handler e) \<and>
         (parts = [p] \<and> fieldname p = ''file'' \<longrightarrow>
            snd (post_upload st parts cloud save_fault new_id now) =
              default_error_handler LIMIT_FILE_SIZE) \<and>
         fileSize = 10 * 2 ^ 20"
proof -
  obtain e where e: "upload_single parts = Inl e"
    using upload_single_oversize [OF assms] by blast
  have "(parts = [p] \<and> fieldname p = ''file'' \<longrightarrow> e = LIMIT_FILE_SIZE)"
    using e assms(2) by (auto split: if_splits)
  then show ?thesis using e by (auto simp: post_upload_def fileSize_def)
qed

theorem oversize_upload_rejected_before_storage_witness:
  "big_bin \<in> set [big_bin] \<and> length (buffer big_bin) > fileSize \<and>
   cloud_calls (fst (post_upload three_files [big_bin] (Uploaded cat_url) None cat_id
     1700000001000)) = [] \<and>
   files (fst (post_upload three_files [big_bin] (Uploaded cat_url) None cat_id
     1700000001000)) = [doc_a, doc_b, doc_c] \<and>
   snd (post_upload three_files [big_bin] (Uploaded cat_url) None cat_id 1700000001000) =
     default_error_handler LIMIT_FILE_SIZE"
proof -
  have h1: "big_bin \<in> set [big_bin]" by simp
  have h2: "length (buffer big_bin) > fileSize" by (simp add: big_bin_def fileSize_def)
  have h3: "fieldname big_bin = ''file''" by (simp add: big_bin_def)
  from oversize_upload_rejected_before_storage [OF h1 h2, of three_files "Uploaded cat_url"
      None cat_id 1700000001000]
  show ?thesis using h2 h3 by (simp add: three_files_def)
qed

text \<open>
  C7. When a file reached the handler, Cloudinary answered with a result, and the insert is
  accepted (no driver fault, the new id is not taken), the collection gains one document
  \<open>d\<close>, named after the upload's original name and holding the result's \<open>secure_url\<close>, and
  the response carries that document's id, filename, URL and upload date.
\<close>

theorem upload_success_response:
  assumes "upload_single parts = Inr (Some f)" and "cloud = Uploaded result"
    and "save_fault = None" and "new_id \<notin> set (map doc_id (files st))"
  shows "\<exists>d. files (fst (post_upload st parts cloud save_fault new_id now)) = files st @ [d] \<and>
             filename d = originalname f \<and> cloudinaryUrl d = secure_url result \<and>
             snd (post_upload st parts cloud save_fault new_id now) =
               res_json (JObj
                 [(''message'', JStr ''File uploaded successfully''),
                  (''file'', JObj
                     [(''id'', JOid (doc_id d)),
                      (''filename'', JStr (filename d)),
                      (''url'', JStr (cloudinaryUrl d)),
                      (''uploadDate'', JDate (uploadDate d))])])"
  by (rule exI [of _ "\<lparr>doc_id = new_id, filename = originalname f,
        originalName = originalname f, cloudinaryUrl = secure_url result, uploadDate = now\<rparr>"])
     (simp add: upload_success [OF assms])

theorem upload_success_response_witness:
  "upload_single [cat_png] = Inr (Some cat_png) \<and>
   cat_id \<notin> set (map doc_id (files three_files)) \<and>
   files (fst (post_upload three_files [cat_png] (Uploaded cat_url) None cat_id 1700000001000)) =
     [doc_a, doc_b, doc_c, cat_doc] \<and>
   snd (post_upload three_files [cat_png] (Uploaded cat_url) None cat_id 1700000001000) =
     res_json (JObj
       [(''message'', JStr ''File uploaded successfully''),
        (''file'', JObj
           [(''id'', JOid cat_id),
            (''filename'', JStr ''cat.png''),
            (''url'', JStr ''https://res.cloudinary.com/demo/mern-uploads/cat.png''),
            (''uploadDate'', JDate 1700000001000)])])"
proof -
  have h1: "upload_single [cat_png] = Inr (Some cat_png)"
    by (simp add: cat_png_def fileSize_def)
  have h2: "cat_id \<notin> set (map doc_id (files three_files))"
    by (simp add: three_files_def doc_a_def doc_b_def doc_c_def cat_id_def)
  have n: "originalname cat_png = ''cat.png''" by (simp add: cat_png_def)
  from upload_success_response [OF h1 refl refl h2, of cat_url 1700000001000]
  obtain d where d: "files (fst (post_upload three_files [cat_png] (Uploaded cat_url) None cat_id
        1700000001000)) = files three_files @ [d]"
    and r: "snd (post_upload three_files [cat_png] (Uploaded cat_url) None cat_id 1700000001000) =
               res_json (JObj
                 [(''message'', JStr ''File uploaded successfully''),
                  (''file'', JObj
                     [(''id'', JOid (doc_id d)),
                      (''filename'', JStr (filename d)),
                      (''url'', JStr (cloudinaryUrl d)),
                      (''uploadDate'', JDate (uploadDate d))])])"
    by blast
  have e: "post_upload three_files [cat_png] (Uploaded cat_url) None cat_id 1700000001000 =
     (three_files\<lparr>cloud_calls := cloud_calls three_files @ [UploadStream mern_uploads (buffer cat_png)],
         files := files three_files @ [cat_doc]\<rparr>,
      res_json (JObj
        [(''message'', JStr ''File uploaded successfully''),
         (''file'', JObj
            [(''id'', JOid cat_id),
             (''filename'', JStr ''cat.png''),
             (''url'', JStr ''https://res.cloudinary.com/demo/mern-uploads/cat.png''),
             (''uploadDate'', JDate 1700000001000)])]))"
    using upload_success [OF h1 refl refl h2, of cat_url 1700000001000]
    by (simp add: cat_doc_def n cat_url_def)
  show ?thesis using h1 h2 d r e by (simp add: three_files_def)
qed

subsection \<open>List\<close>

text \<open>
  C2, as stated, fails on ``strictly'': two uploads served in the same millisecond store
  two documents with one \<open>uploadDate\<close>; the list returns both, and neither order of the two
  is strictly descending.
\<close>

theorem same_millisecond_counterexample:
  "files (run cloud_name_only initial same_millisecond) = [cat_doc, dog_doc] \<and>
   snd (get_files (run cloud_name_only initial same_millisecond) None) =
     res_json (JArr [toJSON cat_doc, toJSON dog_doc]) \<and>
   uploadDate cat_doc = uploadDate dog_doc \<and>
   \<not> sorted_wrt (\<lambda>a b. uploadDate b < uploadDate a) [cat_doc, dog_doc] \<and>
   \<not> sorted_wrt (\<lambda>a b. uploadDate b < uploadDate a) [dog_doc, cat_doc]"
proof -
  have r: "run cloud_name_only initial same_millisecond =
      \<lparr>files = [cat_doc, dog_doc],
       cloud_calls = [UploadStream mern_uploads (buffer cat_png),
                      UploadStream mern_uploads (buffer dog_png)]\<rparr>"
    by (simp add: same_millisecond_def initial_def post_upload_def upload_handler_def
        File_save_def cat_png_def dog_png_def fileSize_def cat_doc_def dog_doc_def
        cat_id_def dog_id_def)
  show ?thesis
    by (simp add: r get_files_def File_find_sort_def cat_doc_def dog_doc_def)
qed

text \<open>
  C2, amended. When the query is answered, \<open>GET /api/files\<close> returns every stored
  document, each exactly once (no filter, no page), newest first: \<open>uploadDate\<close> never
  increases along the list, whatever the insertion order, and decreases strictly when no
  two documents share a timestamp.
\<close>

theorem list_returns_all_newest_first:
  "\<exists>fs. get_files st None = (st, res_json (JArr (map toJSON fs))) \<and>
        mset fs = mset (files st) \<and>
        sorted_wrt (\<lambda>a b. uploadDate b \<le> uploadDate a) fs \<and>
        (distinct (map uploadDate (files st)) \<longrightarrow>
           sorted_wrt (\<lambda>a b. uploadDate b < uploadDate a) fs)"
proof (intro exI conjI impI)
  show "get_files st None =
      (st, res_json (JArr (map toJSON (sort_key (\<lambda>d. - uploadDate d) (files st)))))"
    by (simp add: get_files_def File_find_sort_def)
  show "mset (sort_key (\<lambda>d. - uploadDate d) (files st)) = mset (files st)" by simp
  show "sorted_wrt (\<lambda>a b. uploadDate b \<le> uploadDate a)
      (sort_key (\<lambda>d. - uploadDate d) (files st))"
    by (rule sorted_desc)
  show "sorted_wrt (\<lambda>a b. uploadDate b < uploadDate a)
      (sort_key (\<lambda>d. - uploadDate d) (files st))"
    if "distinct (map uploadDate (files st))" using that by (rule strict_desc)
qed

theorem list_returns_all_newest_first_witness:
  "distinct (map uploadDate (files three_files)) \<and>
   get_files three_files None =
     (three_files, res_json (JArr (map toJSON [doc_b, doc_c, doc_a]))) \<and>
   sorted_wrt (\<lambda>a b. uploadDate b < uploadDate a) [doc_b, doc_c, doc_a]"
  using list_returns_all_newest_first [of three_files]
  by (simp add: three_files_def doc_a_def doc_b_def doc_c_def get_files_def File_find_sort_def)

subsection \<open>Delete\<close>

text \<open>
  C4, as stated, fails for an id that is not an ObjectId: no stored document has the id
  \<open>abc\<close>, yet the request is answered 500 ``Delete failed'', not 404, because the cast of
  the id rejects and the handler's \<open>catch\<close> answers.
\<close>

theorem delete_malformed_id_counterexample:
  "''abc'' \<notin> set (map (toHexString \<circ> doc_id) (files three_files)) \<and>
   delete_file three_files ''abc'' None None =
     (three_files, res_status_json 500 (JObj [(''error'', JStr ''Delete failed'')])) \<and>
   status (snd (delete_file three_files ''abc'' None None)) \<noteq> 404"
  by (simp add: three_files_def doc_a_def doc_b_def doc_c_def delete_file_def File_findById_def
      castObjectId_def res_status_json_def)

text \<open>
  C4, amended. In a collection with unique ids: an id that cannot be cast to an ObjectId
  is answered 500 and the state is unchanged; a well-formed id that no stored document has
  is answered 404 and the state is unchanged (when the lookup is answered); a well-formed
  id of a stored document removes exactly that document and is answered with the
  confirmation message (when both database calls are answered), and the next list holds
  every other document and not this one.
\<close>

theorem delete_by_id:
  assumes "distinct (map doc_id (files st))"
  shows "(castObjectId i = None \<longrightarrow>
            delete_file st i find_fault delete_fault =
              (st, res_status_json 500 (JObj [(''error'', JStr ''Delete failed'')]))) \<and>
         (castObjectId i = Some oid \<and> oid \<notin> set (map doc_id (files st)) \<longrightarrow>
            delete_file st i None delete_fault =
              (st, res_status_json 404 (JObj [(''error'', JStr ''File not found'')]))) \<and>
         (castObjectId i = Some (doc_id d) \<and> d \<in> set (files st) \<longrightarrow>
            delete_file st i None None =
              (st\<lparr>files := remove1 d (files st)\<rparr>,
               res_json (JObj [(''message'', JStr ''File deleted from database'')])) \<and>
            d \<notin> set (remove1 d (files st)) \<and>
            (\<exists>fs. get_files (st\<lparr>files := remove1 d (files st)\<rparr>) None =
                    (st\<lparr>files := remove1 d (files st)\<rparr>, res_json (JArr (map toJSON fs))) \<and>
                  mset fs = mset (files st) - {#d#} \<and> d \<notin> set fs))"
proof (intro conjI impI)
  show "delete_file st i find_fault delete_fault =
      (st, res_status_json 500 (JObj [(''error'', JStr ''Delete failed'')]))"
    if "castObjectId i = None"
    using that by (simp add: delete_file_def File_findById_def)
  show "delete_file st i None delete_fault =
      (st, res_status_json 404 (JObj [(''error'', JStr ''File not found'')]))"
    if "castObjectId i = Some oid \<and> oid \<notin> set (map doc_id (files st))"
    using that by (simp add: delete_file_def File_findById_def find_absent)
next
  assume h: "castObjectId i = Some (doc_id d) \<and> d \<in> set (files st)"
  have dd: "distinct (files st)"
    using assms by (rule distinct_map [THEN iffD1, THEN conjunct1])
  show "delete_file st i None None =
      (st\<lparr>files := remove1 d (files st)\<rparr>,
       res_json (JObj [(''message'', JStr ''File deleted from database'')]))"
    using h assms
    by (simp add: delete_file_def File_findById_def File_findByIdAndDelete_def
        find_member delete_first_remove1)
  show gone: "d \<notin> set (remove1 d (files st))" using dd by simp
  show "\<exists>fs. get_files (st\<lparr>files := remove1 d (files st)\<rparr>) None =
            (st\<lparr>files := remove1 d (files st)\<rparr>, res_json (JArr (map toJSON fs))) \<and>
          mset fs = mset (files st) - {#d#} \<and> d \<notin> set fs"
  proof (intro exI conjI)
    show "get_files (st\<lparr>files := remove1 d (files st)\<rparr>) None =
        (st\<lparr>files := remove1 d (files st)\<rparr>,
         res_json (JArr (map toJSON (sort_key (\<lambda>d. - uploadDate d) (remove1 d (files st))))))"
      by (simp add: get_files_def File_find_sort_def)
    show "mset (sort_key (\<lambda>d. - uploadDate d) (remove1 d (files st))) = mset (files st) - {#d#}"
      by simp
    show "d \<notin> set (sort_key (\<lambda>d. - uploadDate d) (remove1 d (files st)))"
      using gone by simp
  qed
qed

theorem delete_by_id_witness:
  "distinct (map doc_id (files three_files)) \<and>
   castObjectId ''zzz'' = None \<and>
   status (snd (delete_file three_files ''zzz'' None None)) = 500 \<and>
   castObjectId ''64b7f0c2a1d3e4f5a6b7c8d9'' = Some (ObjectId ''64b7f0c2a1d3e4f5a6b7c8d9'') \<and>
   ObjectId ''64b7f0c2a1d3e4f5a6b7c8d9'' \<notin> set (map doc_id (files three_files)) \<and>
   status (snd (delete_file three_files ''64b7f0c2a1d3e4f5a6b7c8d9'' None None)) = 404 \<and>
   castObjectId ''64B7F0C2A1D3E4F5A6B7C8D2'' = Some (doc_id doc_b) \<and>
   doc_b \<in> set (files three_files) \<and>
   delete_file three_files ''64B7F0C2A1D3E4F5A6B7C8D2'' None None =
     (\<lparr>files = [doc_a, doc_c], cloud_calls = []\<rparr>,
      res_json (JObj [(''message'', JStr ''File deleted from database'')]))"
proof -
  have d: "distinct (map doc_id (files three_files))"
    by (simp add: three_files_def doc_a_def doc_b_def doc_c_def)
  have c1: "castObjectId ''zzz'' = None" by (simp add: castObjectId_def)
  have c2: "castObjectId ''64b7f0c2a1d3e4f5a6b7c8d9'' = Some (ObjectId ''64b7f0c2a1d3e4f5a6b7c8d9'')"
    by (simp add: castObjectId_def is_hex_def ascii_lower_def)
  have c3: "castObjectId ''64B7F0C2A1D3E4F5A6B7C8D2'' = Some (doc_id doc_b)"
    by (simp add: castObjectId_def is_hex_def ascii_lower_def doc_b_def)
  have n: "ObjectId ''64b7f0c2a1d3e4f5a6b7c8d9'' \<notin> set (map doc_id (files three_files))"
    by (simp add: three_files_def doc_a_def doc_b_def doc_c_def)
  have m: "doc_b \<in> set (files three_files)" by (simp add: three_files_def)
  have r: "remove1 doc_b (files three_files) = [doc_a, doc_c]"
    by (simp add: three_files_def doc_a_def doc_b_def doc_c_def)
  note t1 = delete_by_id [OF d, where i = "''zzz''" and find_fault = None and delete_fault = None]
  note t2 = delete_by_id [OF d, where i = "''64b7f0c2a1d3e4f5a6b7c8d9''"
      and oid = "ObjectId ''64b7f0c2a1d3e4f5a6b7c8d9''" and delete_fault = None]
  note t3 = delete_by_id [OF d, where i = "''64B7F0C2A1D3E4F5A6B7C8D2''" and d = doc_b]
  show ?thesis
    using t1 t2 t3 d c1 c2 c3 n m r
    by (simp add: res_status_json_def three_files_def)
qed

text \<open>
  C6. No delete request, successful or not, adds a call to the Cloudinary client: the log
  of calls is the one before the request, and the state differs from the old one in the
  collection at most.
\<close>

theorem delete_never_calls_cloudinary:
  "cloud_calls (fst (delete_file st i find_fault delete_fault)) = cloud_calls st \<and>
   fst (delete_file st i find_fault delete_fault) =
     st\<lparr>files := files (fst (delete_file st i find_fault delete_fault))\<rparr>"
  by (simp add: delete_file_def split: sum.split option.split)

subsection \<open>Status routes\<close>

text \<open>
  C8. With only \<open>CLOUDINARY_CLOUD_NAME\<close> set, both routes report
  \<open>cloudinary_configured: true\<close>, although the API key and the API secret are missing and
  the start-up validation reports the configuration as incomplete.
\<close>

theorem configured_flag_with_cloud_name_only:
  "snd (api_test cloud_name_only initial) =
     res_json (JObj [(''message'', JStr ''Backend is working!''),
                     (''cloudinary_configured'', JBool True)]) \<and>
   snd (health cloud_name_only 1700000001000 initial) =
     res_json (JObj [(''status'', JStr ''OK''), (''timestamp'', JDate 1700000001000),
                     (''cloudinary_configured'', JBool True)]) \<and>
   \<not> cloudinary_env_present cloud_name_only"
  by (simp add: api_test_def health_def cloud_name_only_def truthy_def
      cloudinary_env_present_def)

lemma status_routes_pure: "fst (api_test e st) = st" "fst (health e now st) = st"
  by (simp_all add: api_test_def health_def)

lemma env_present_flag:
  "cloudinary_env_present e \<Longrightarrow>
   snd (api_test e st) = res_json (JObj [(''message'', JStr ''Backend is working!''),
                     (''cloudinary_configured'', JBool True)])"
  by (simp add: api_test_def cloudinary_env_present_def)

subsection \<open>Stored documents\<close>

lemma delete_first_subset: "set (delete_first oid ds) \<subseteq> set ds"
  by (induction ds) auto

lemma delete_first_distinct:
  "distinct (map doc_id ds) \<Longrightarrow> distinct (map doc_id (delete_first oid ds))"
proof (induction ds)
  case Nil
  then show ?case by simp
next
  case (Cons a ds)
  then show ?case using delete_first_subset [of oid ds] by auto
qed

lemma post_upload_files:
  "files (fst (post_upload st parts cloud save_fault new_id now)) = files st \<or>
   (\<exists>f result. upload_single parts = Inr (Some f) \<and> cloud = Uploaded result \<and>
      new_id \<notin> set (map doc_id (files st)) \<and>
      files (fst (post_upload st parts cloud save_fault new_id now)) =
        files st @ [\<lparr>doc_id = new_id, filename = originalname f, originalName = originalname f,
                     cloudinaryUrl = secure_url result, uploadDate = now\<rparr>])"
  by (auto simp: post_upload_def upload_handler_def File_save_def Let_def
      split: sum.split option.split cloud_outcome.split)

lemma delete_file_files:
  "files (fst (delete_file st i find_fault delete_fault)) = files st \<or>
   (\<exists>oid. files (fst (delete_file st i find_fault delete_fault)) = delete_first oid (files st))"
  by (auto simp: delete_file_def File_findByIdAndDelete_def split: sum.split option.split)





lemma serve_distinct_ids:
  assumes "distinct (map doc_id (files st))"
  shows "distinct (map doc_id (files (fst (serve e st r))))"
proof (cases r)
  case GET_test
  with assms show ?thesis by (simp add: api_test_def)
next
  case (GET_health now)
  with assms show ?thesis by (simp add: health_def)
next
  case (POST_upload parts cloud save_fault new_id now)
  with assms post_upload_files [of st parts cloud save_fault new_id now]
  show ?thesis by auto
next
  case (GET_files find_fault)
  with assms show ?thesis by (simp add: get_files_def split: sum.splits)
next
  case (DELETE_file i find_fault delete_fault)
  with assms delete_file_files [of st i find_fault delete_fault]
    delete_first_distinct
  show ?thesis by auto
qed

lemma run_distinct_ids:
  "distinct (map doc_id (files st)) \<Longrightarrow> distinct (map doc_id (files (run e st rs)))"
  by (induction rs arbitrary: st) (auto simp: serve_distinct_ids)

lemma reachable_distinct_ids: "distinct (map doc_id (files (run e initial rs)))"
  by (rule run_distinct_ids) (simp add: initial_def)

subsection \<open>Shapes of the responses\<close>

lemma toJSON_keys:
  "keys (toJSON d) =
     [''_id'', ''filename'', ''originalName'', ''cloudinaryUrl'', ''uploadDate'', ''__v'']"
  by (simp add: toJSON_def)

lemma toJSON_fields:
  "field ''_id'' (toJSON d) = Some (JOid (doc_id d))"
  "field ''filename'' (toJSON d) = Some (JStr (filename d))"
  "field ''originalName'' (toJSON d) = Some (JStr (originalName d))"
  "field ''cloudinaryUrl'' (toJSON d) = Some (JStr (cloudinaryUrl d))"
  "field ''uploadDate'' (toJSON d) = Some (JDate (uploadDate d))"
  by (simp_all add: toJSON_def)

text \<open>
  C10, as stated, fails on the list of field names: a listed document also carries the
  version key \<open>__v\<close>.
\<close>

theorem listed_document_keys_counterexample:
  "get_files three_files None =
     (three_files, res_json (JArr [toJSON doc_b, toJSON doc_c, toJSON doc_a])) \<and>
   keys (toJSON doc_b) =
     [''_id'', ''filename'', ''originalName'', ''cloudinaryUrl'', ''uploadDate'', ''__v''] \<and>
   keys (toJSON doc_b) \<noteq>
     [''_id'', ''filename'', ''originalName'', ''cloudinaryUrl'', ''uploadDate'']"
  by (simp add: three_files_def doc_a_def doc_b_def doc_c_def get_files_def File_find_sort_def
      toJSON_def)

text \<open>
  C10, amended. After a successful upload the new document \<open>d\<close> is among the listed ones,
  serialised as stored: under \<open>_id\<close>, \<open>filename\<close>, \<open>originalName\<close>, \<open>cloudinaryUrl\<close>,
  \<open>uploadDate\<close> and the version key \<open>__v\<close>. The upload response shows the same document
  under \<open>id\<close>, \<open>filename\<close>, \<open>url\<close>, \<open>uploadDate\<close>: another shape.
\<close>

theorem list_and_upload_shapes:
  assumes "upload_single parts = Inr (Some f)" and "cloud = Uploaded result"
    and "save_fault = None" and "new_id \<notin> set (map doc_id (files st))"
    and "post_upload st parts cloud save_fault new_id now = (st', r)"
  shows "\<exists>d fobj fs.
     files st' = files st @ [d] \<and>
     get_files st' None = (st', res_json (JArr (map toJSON fs))) \<and> d \<in> set fs \<and>
     keys (toJSON d) =
       [''_id'', ''filename'', ''originalName'', ''cloudinaryUrl'', ''uploadDate'', ''__v''] \<and>
     field ''_id'' (toJSON d) = Some (JOid (doc_id d)) \<and>
     field ''filename'' (toJSON d) = Some (JStr (filename d)) \<and>
     field ''originalName'' (toJSON d) = Some (JStr (originalName d)) \<and>
     field ''cloudinaryUrl'' (toJSON d) = Some (JStr (cloudinaryUrl d)) \<and>
     field ''uploadDate'' (toJSON d) = Some (JDate (uploadDate d)) \<and>
     response_file r = Some fobj \<and>
     keys fobj = [''id'', ''filename'', ''url'', ''uploadDate''] \<and>
     field ''id'' fobj = Some (JOid (doc_id d)) \<and>
     field ''filename'' fobj = Some (JStr (filename d)) \<and>
     field ''url'' fobj = Some (JStr (cloudinaryUrl d)) \<and>
     field ''uploadDate'' fobj = Some (JDate (uploadDate d)) \<and>
     keys (toJSON d) \<noteq> keys fobj"
proof -
  let ?d = "\<lparr>doc_id = new_id, filename = originalname f, originalName = originalname f,
             cloudinaryUrl = secure_url result, uploadDate = now\<rparr>"
  let ?fobj = "JObj [(''id'', JOid new_id), (''filename'', JStr (originalname f)),
                    (''url'', JStr (secure_url result)), (''uploadDate'', JDate now)]"
  let ?fs = "sort_key (\<lambda>d. - uploadDate d) (files st')"
  from upload_success [OF assms(1-4), of now] assms(5)
  have st': "files st' = files st @ [?d]"
    and r: "r = res_json (JObj [(''message'', JStr ''File uploaded successfully''),
                                (''file'', ?fobj)])"
    by auto
  have g: "get_files st' None = (st', res_json (JArr (map toJSON ?fs)))"
    by (simp add: get_files_def File_find_sort_def)
  have m: "?d \<in> set ?fs" using st' by simp
  have rf: "response_file r = Some ?fobj" using r by (simp add: res_json_def)
  show ?thesis
    apply (rule exI [of _ ?d])
    apply (rule exI [of _ ?fobj])
    apply (rule exI [of _ ?fs])
    using st' g m rf
    apply (simp add: toJSON_def)
    done
qed

theorem list_and_upload_shapes_witness:
  "upload_single [cat_png] = Inr (Some cat_png) \<and>
   cat_id \<notin> set (map doc_id (files three_files)) \<and>
   files (fst (post_upload three_files [cat_png] (Uploaded cat_url) None cat_id 1700000001000)) =
     [doc_a, doc_b, doc_c, cat_doc] \<and>
   response_file (snd (post_upload three_files [cat_png] (Uploaded cat_url) None cat_id
     1700000001000)) =
     Some (JObj [(''id'', JOid cat_id), (''filename'', JStr ''cat.png''),
                 (''url'', JStr ''https://res.cloudinary.com/demo/mern-uploads/cat.png''),
                 (''uploadDate'', JDate 1700000001000)]) \<and>
   toJSON cat_doc =
     JObj [(''_id'', JOid cat_id), (''filename'', JStr ''cat.png''),
           (''originalName'', JStr ''cat.png''),
           (''cloudinaryUrl'', JStr ''https://res.cloudinary.com/demo/mern-uploads/cat.png''),
           (''uploadDate'', JDate 1700000001000), (''__v'', JNum 0)]"
proof -
  have h1: "upload_single [cat_png] = Inr (Some cat_png)"
    by (simp add: cat_png_def fileSize_def)
  have h2: "cat_id \<notin> set (map doc_id (files three_files))"
    by (simp add: three_files_def doc_a_def doc_b_def doc_c_def cat_id_def)
  have n: "originalname cat_png = ''cat.png''" by (simp add: cat_png_def)
  have e: "post_upload three_files [cat_png] (Uploaded cat_url) None cat_id 1700000001000 =
     (three_files\<lparr>cloud_calls := cloud_calls three_files @ [UploadStream mern_uploads (buffer cat_png)],
         files := files three_files @ [cat_doc]\<rparr>,
      res_json (JObj
        [(''message'', JStr ''File uploaded successfully''),
         (''file'', JObj
            [(''id'', JOid cat_id),
             (''filename'', JStr ''cat.png''),
             (''url'', JStr ''https://res.cloudinary.com/demo/mern-uploads/cat.png''),
             (''uploadDate'', JDate 1700000001000)])]))"
    using upload_success [OF h1 refl refl h2, of cat_url 1700000001000]
    by (simp add: cat_doc_def n cat_url_def)
  note t = list_and_upload_shapes [OF h1 refl refl h2 e]
  show ?thesis using t h1 h2 e
    by (simp add: three_files_def toJSON_def cat_doc_def cat_url_def res_json_def)
qed

end
